theory Spec2Isabelle
  imports Complex_Main
begin

section \<open>The learning loop of the agent (src/adala/agents/base.py)\<close>

text \<open>
  The development embeds the methods of class \<open>Agent\<close>: \<open>verify_input_parameters\<close>,
  \<open>get_runtime\<close>, \<open>get_teacher_runtime\<close>, \<open>select_skill_to_train\<close>, \<open>pe_optimization\<close> and
  \<open>learn\<close>. Exceptions are values of type \<open>pyerr\<close>; a method that may raise returns
  \<open>pyerr + 'a\<close>. Calls to the teacher runtime are recorded in a log that is threaded
  through the methods, together with the agent whose skills \<open>learn\<close> mutates. Console
  output (\<open>print\<close>, \<open>print_text\<close>, \<open>print_dataframe\<close>) is not part of the model, except for
  the message of \<open>print_error\<close> in \<open>verify_input_parameters\<close>.
\<close>

subsection \<open>Python values\<close>

datatype pyerr =
    KeyError string
  | ValueError string
  | IndexError string
  | TypeError string
  | RuntimeFailure string
  | Unsupported string

text \<open>
  \<open>RuntimeFailure\<close> stands for whatever exception a runtime's \<open>execute\<close> raises (transport
  error, timeout, ...). \<open>Unsupported\<close> marks a format string outside the fragment of
  \<open>str.format\<close> that \<open>py_format\<close> below covers.
\<close>

text \<open>
  A Python float is a real number or NaN (infinities are left out: an accuracy is a mean
  of matches). The comparison \<open><\<close> is false as soon as one side is NaN.
\<close>

datatype pyfloat = Float real | NaN

fun float_lt :: "pyfloat \<Rightarrow> pyfloat \<Rightarrow> bool" where
  "float_lt (Float x) (Float y) = (x < y)"
| "float_lt _ _ = False"

text \<open>
  A cell of a table row, as \<open>to_dict(orient="records")\<close> hands it over: a string, \<open>None\<close>,
  or the float NaN that pandas uses for a missing value. \<open>truthy\<close> is Python's \<open>bool(v)\<close>
  (\<open>bool(float("nan"))\<close> is \<open>True\<close>: NaN is a non-zero float), \<open>py_str\<close> is \<open>str(v)\<close>.
\<close>

datatype pyval = PStr string | PNone | PNaN

fun truthy :: "pyval \<Rightarrow> bool" where
  "truthy (PStr s) = (s \<noteq> [])"
| "truthy PNone = False"
| "truthy PNaN = True"

fun py_str :: "pyval \<Rightarrow> string" where
  "py_str (PStr s) = s"
| "py_str PNone = ''None''"
| "py_str PNaN = ''nan''"

type_synonym row = "string \<rightharpoonup> pyval"

subsection \<open>\<open>str.format(**row)\<close>\<close>

text \<open>
  \<open>template.format(**row)\<close> for templates with named placeholders: literal text, the
  escapes \<open>{{\<close> and \<open>}}\<close>, and replacement fields \<open>{name}\<close>. The string is read from left to
  right, so the first field that fails decides the exception:
  \<^item> a name that is not a key of the row raises \<open>KeyError(name)\<close>;
  \<^item> an empty name (index 0) or a name of decimal digits is a positional field, and
    there are no positional arguments: \<open>IndexError\<close> with the index in its message, or
    \<open>ValueError\<close> when the digits exceed \<open>PY_SSIZE_T_MAX\<close> (taken as \<open>2^63 - 1\<close>);
  \<^item> a single \<open>}\<close>, or a \<open>{\<close> that is never closed, raises \<open>ValueError\<close>;
  \<^item> a field with a conversion (\<open>!\<close>), a format specification (\<open>:\<close>), an attribute or an
    index (\<open>.\<close>, \<open>[\<close>) or a nested brace is outside the fragment. What Python yields
    there depends on \<open>repr\<close>, on the format mini-language and on object addresses,
    none of which is modelled: the result is \<open>Unsupported\<close>, which is no exception of
    Python but the mark of a template that the model does not cover.
\<close>

definition is_digit :: "char \<Rightarrow> bool" where
  "is_digit c = (c \<in> set ''0123456789'')"

definition plain_name :: "string \<Rightarrow> bool" where
  "plain_name f = list_all (\<lambda>c. c \<notin> set ''!:.[{'') f"

text \<open>The number that a string of decimal digits denotes, and the decimal digits of a number.\<close>

definition digits_value :: "string \<Rightarrow> nat" where
  "digits_value f = foldl (\<lambda>n c. 10 * n + (of_char c - 48)) 0 f"

function show_nat :: "nat \<Rightarrow> string" where
  "show_nat n = (if n < 10 then [''0123456789'' ! n]
                 else show_nat (n div 10) @ [''0123456789'' ! (n mod 10)])"
  by pat_completeness auto
termination
  by (relation "measure id") auto

declare show_nat.simps [simp del]

definition format_field :: "row \<Rightarrow> string \<Rightarrow> pyerr + string" where
  "format_field r f =
     (if \<not> plain_name f then Inl (Unsupported f)
      else if list_all is_digit f then
        (if digits_value f > 9223372036854775807
         then Inl (ValueError ''Too many decimal digits in format string'')
         else Inl (IndexError (''Replacement index '' @ show_nat (digits_value f) @
                               '' out of range for positional args tuple'')))
      else (case r f of None \<Rightarrow> Inl (KeyError f) | Some v \<Rightarrow> Inr (py_str v)))"

definition prepend :: "string \<Rightarrow> pyerr + string \<Rightarrow> pyerr + string" where
  "prepend s res = (case res of Inl e \<Rightarrow> Inl e | Inr t \<Rightarrow> Inr (s @ t))"

text \<open>
  \<open>format_from r fld cs\<close> formats the rest \<open>cs\<close> of the template; \<open>fld = None\<close> outside a
  replacement field, \<open>fld = Some f\<close> inside one whose name read so far is \<open>f\<close>.
\<close>

fun format_from :: "row \<Rightarrow> string option \<Rightarrow> string \<Rightarrow> pyerr + string" where
  "format_from r None [] = Inr []"
| "format_from r None (c # cs) =
     (if c = CHR ''{'' then
        (case cs of
           [] \<Rightarrow> Inl (ValueError ''Single '{' encountered in format string'')
         | d # ds \<Rightarrow>
             if d = CHR ''{'' then prepend ''{'' (format_from r None ds)
             else format_from r (Some []) cs)
      else if c = CHR ''}'' then
        (case cs of
           [] \<Rightarrow> Inl (ValueError ''Single '}' encountered in format string'')
         | d # ds \<Rightarrow>
             if d = CHR ''}'' then prepend ''}'' (format_from r None ds)
             else Inl (ValueError ''Single '}' encountered in format string''))
      else prepend [c] (format_from r None cs))"
| "format_from r (Some f) [] = Inl (ValueError ''expected '}' before end of string'')"
| "format_from r (Some f) (c # cs) =
     (if c = CHR ''}'' then
        (case format_field r f of
           Inl e \<Rightarrow> Inl e
         | Inr s \<Rightarrow> prepend s (format_from r None cs))
      else format_from r (Some (f @ [c])) cs)"

definition py_format :: "string \<Rightarrow> row \<Rightarrow> pyerr + string" where
  "py_format template r = format_from r None template"

text \<open>\<open>"\n".join(examples)\<close>\<close>

fun join_nl :: "string list \<Rightarrow> string" where
  "join_nl [] = []"
| "join_nl [x] = x"
| "join_nl (x # y # ys) = x @ ''\<newline>'' @ join_nl (y # ys)"

subsection \<open>Skills, feedback, runtimes and the agent\<close>

text \<open>
  \<open>Skill\<close>, \<open>SkillSet\<close>, \<open>Environment\<close>, \<open>EnvironmentFeedback\<close> and \<open>Runtime\<close> are declared
  outside this file; the records hold what the agent reads and writes. A \<open>SkillSet\<close> is
  indexed by skill name (\<open>self.skills[name]\<close>) and \<open>get_skill_outputs()\<close> is the ordered
  mapping from output name to skill name, kept as the list of its items.
\<close>

record skill =
  name :: string
  instructions :: string
  input_template :: string
  output_template :: string

record skillset =
  skillset_skills :: "string \<rightharpoonup> skill"
  get_skill_outputs :: "(string \<times> string) list"

record environment_feedback =
  feedback :: "row list"
  get_accuracy :: "string \<rightharpoonup> pyfloat"

record message =
  role :: string
  content :: string

type_synonym dialogue = "message list"

text \<open>
  A teacher runtime answers a dialogue with a text or raises. It may be stateful, so the
  answer depends on the calls made before; the log of calls is the state.
\<close>

type_synonym teacher = "dialogue list \<Rightarrow> dialogue \<Rightarrow> pyerr + string"

text \<open>
  Lines 361 to 370 of \<open>learn\<close> only call collaborators: the environment's
  \<open>get_data_batch\<close> and \<open>get_feedback\<close>, \<open>SkillSet.apply\<close> with the worker runtime, and the
  rename and merge of pandas. One function stands for them: from the worker runtime,
  \<open>batch_size\<close>, \<open>num_feedbacks\<close>, the iteration and the current skills it yields the
  feedback and the records of \<open>analyzed_df\<close>.
\<close>

record iteration_data =
  it_feedback :: environment_feedback
  analyzed_df :: "row list"

type_synonym 'r environment = "'r \<Rightarrow> int option \<Rightarrow> int option \<Rightarrow> nat \<Rightarrow> skillset \<Rightarrow> iteration_data"

text \<open>
  The agent. A dictionary of runtimes is the list of its items (distinct keys, in
  insertion order); both dictionaries are \<open>Optional\<close>. The field \<open>memory\<close> is never read by
  the methods below and is left out.
\<close>

record 'r agent =
  environment :: "'r environment"
  skills :: skillset
  runtimes :: "(string \<times> 'r) list option"
  teacher_runtimes :: "(string \<times> teacher) list option"
  default_runtime :: string
  default_teacher_runtime :: string

subsection \<open>\<open>verify_input_parameters\<close>, \<open>get_runtime\<close>, \<open>get_teacher_runtime\<close>\<close>

text \<open>
  The message that \<open>_raise_default_runtime_error\<close> hands to \<open>print_error\<close> is an f-string;
  it is kept as the list of its pieces, \<open>Text\<close> for literal text and interpolated strings
  and \<open>Names\<close> for the interpolated \<open>list(runtimes)\<close>, the keys of the dictionary.
\<close>

datatype fpart = Text string | Names "string list"

definition raise_default_runtime_error ::
  "string \<Rightarrow> string \<Rightarrow> (string \<times> 'x) list \<Rightarrow> string \<Rightarrow> fpart list \<times> pyerr" where
  "raise_default_runtime_error val runtime rts default_value =
    ([Text ''The Agent.'', Text runtime, Text '' is set to '', Text val,
      Text '', but this runtime is not available in the list: '', Names (map fst rts),
      Text (''. Please choose one of the available runtimes and initialize the agent again, for example:\<newline>\<newline>'' @
            ''agent = Agent(..., ''),
      Text runtime, Text (''='' @ [CHR 0x27]), Text default_value,
      Text ([CHR 0x27] @ '')\<newline>\<newline>'' @
            ''Make sure the default runtime is available in the list of runtimes. For example:\<newline>\<newline>'' @
            ''agent = Agent(..., runtimes={'' @ [CHR 0x27]),
      Text default_value,
      Text ([CHR 0x27] @ '': OpenAIRuntime(model='gpt-4')})\<newline>\<newline>'')],
     ValueError (''default runtime '' @ val @ '' not found in provided runtimes.''))"

text \<open>
  \<open>k not in d\<close> on a dictionary; on \<open>None\<close> the operator raises \<open>TypeError\<close>.
\<close>

definition none_not_iterable :: pyerr where
  "none_not_iterable = TypeError ''argument of type 'NoneType' is not iterable''"

text \<open>
  The validator runs after the fields are set, on every construction of an agent. It
  returns what was printed and either the exception or the agent.
\<close>

definition verify_input_parameters :: "'r agent \<Rightarrow> fpart list list \<times> (pyerr + 'r agent)" where
  "verify_input_parameters self =
    (case runtimes self of
       None \<Rightarrow> ([], Inl none_not_iterable)
     | Some rts \<Rightarrow>
        if default_runtime self \<notin> set (map fst rts) then
          (case raise_default_runtime_error (default_runtime self) ''default_runtime'' rts ''openai'' of
             (msg, e) \<Rightarrow> ([msg], Inl e))
        else
          (case teacher_runtimes self of
             None \<Rightarrow> ([], Inl none_not_iterable)
           | Some trts \<Rightarrow>
              if default_teacher_runtime self \<notin> set (map fst trts) then
                (case raise_default_runtime_error (default_teacher_runtime self)
                        ''default_teacher_runtime'' trts ''openai-gpt4'' of
                   (msg, e) \<Rightarrow> ([msg], Inl e))
              else ([], Inr self)))"

text \<open>
  \<open>Agent(...)\<close>. The class is a pydantic model: the constructor sets the fields (the
  validators of mode \<open>before\<close>, \<open>environment_validator\<close> and \<open>skills_validator\<close>, only
  coerce their argument to the type of the field) and then runs the validator of mode
  \<open>after\<close>, \<open>verify_input_parameters\<close>. An exception of the validator is the outcome of
  the constructor call, and no agent exists then.
\<close>

definition new_agent ::
  "'r environment \<Rightarrow> skillset \<Rightarrow> (string \<times> 'r) list option \<Rightarrow> (string \<times> teacher) list option
     \<Rightarrow> string \<Rightarrow> string \<Rightarrow> fpart list list \<times> (pyerr + 'r agent)" where
  "new_agent env sks rts trts dr dtr =
     verify_input_parameters
       \<lparr>environment = env, skills = sks, runtimes = rts, teacher_runtimes = trts,
        default_runtime = dr, default_teacher_runtime = dtr\<rparr>"

definition get_runtime :: "'r agent \<Rightarrow> string option \<Rightarrow> pyerr + 'r" where
  \<open>get_runtime self runtime =
    (let rt = (case runtime of None \<Rightarrow> default_runtime self | Some n \<Rightarrow> n) in
     case runtimes self of
       None \<Rightarrow> Inl none_not_iterable
     | Some rts \<Rightarrow>
        (case map_of rts rt of
           None \<Rightarrow> Inl (ValueError (''Runtime "'' @ rt @ ''" not found.''))
         | Some r \<Rightarrow> Inr r))\<close>

definition get_teacher_runtime :: "'r agent \<Rightarrow> string option \<Rightarrow> pyerr + teacher" where
  \<open>get_teacher_runtime self runtime =
    (let rt = (case runtime of None \<Rightarrow> default_teacher_runtime self | Some n \<Rightarrow> n) in
     case teacher_runtimes self of
       None \<Rightarrow> Inl none_not_iterable
     | Some trts \<Rightarrow>
        (case map_of trts rt of
           None \<Rightarrow> Inl (ValueError (''Teacher Runtime "'' @ rt @ ''" not found.''))
         | Some t \<Rightarrow> Inr t))\<close>

subsection \<open>\<open>select_skill_to_train\<close>\<close>

text \<open>
  The loop over \<open>get_skill_outputs().items()\<close>. \<open>accuracy[skill_output]\<close> raises \<open>KeyError\<close>
  when the output has no entry; the first output below the threshold ends the loop.
  Without one the initial triple \<open>("", "", None)\<close> is returned.
\<close>

fun select_loop ::
  "(string \<rightharpoonup> pyfloat) \<Rightarrow> pyfloat \<Rightarrow> (string \<times> string) list \<Rightarrow> pyerr + (string \<times> string \<times> pyfloat option)" where
  "select_loop accuracy accuracy_threshold [] = Inr ([], [], None)"
| "select_loop accuracy accuracy_threshold ((skill_output, skill_name) # rest) =
     (case accuracy skill_output of
        None \<Rightarrow> Inl (KeyError skill_output)
      | Some a \<Rightarrow>
          if float_lt a accuracy_threshold then Inr (skill_name, skill_output, Some a)
          else select_loop accuracy accuracy_threshold rest)"

definition select_skill_to_train ::
  "'r agent \<Rightarrow> environment_feedback \<Rightarrow> pyfloat \<Rightarrow> pyerr + (string \<times> string \<times> pyfloat option)" where
  "select_skill_to_train self fb accuracy_threshold =
     select_loop (get_accuracy fb) accuracy_threshold (get_skill_outputs (skills self))"

subsection \<open>\<open>pe_optimization\<close>\<close>

text \<open>
  The fixed texts of the dialogue. A character outside ASCII is written as the bytes of
  its UTF-8 encoding (the apostrophe U+2019 is \<open>E2 80 99\<close>).
\<close>

definition system_turn :: message where
  "system_turn = \<lparr>role = ''system'', content = ''You are a helpful assistant.''\<rparr>"

definition task_turn :: message where
  \<open>task_turn = \<lparr>role = ''user'', content =
   ''\<newline>'' @
   ''A prompt is a text paragraph that outlines the expected actions and instructs the model to generate a specific output. This prompt is concatenated with the input text, and the model then creates the required output. Formally, the prompt is a prefix to the input:\<newline>'' @
   ''\<newline>'' @
   ''output = model(concatenate(prompt, input))\<newline>'' @
   ''\<newline>'' @
   ''Model can produce erroneous output if the prompt is not well defined. In our collaboration, we'' @ [CHR 0xE2, CHR 0x80, CHR 0x99] @ ''ll work together to refine a prompt. The process consists of two main steps:\<newline>'' @
   ''\<newline>'' @
   ''## Step 1\<newline>'' @
   ''I will provide you with the current prompt, how the prompt is concatenated with the input text\<newline>'' @
   ''(i.e., "full template"), along with some example(s) that are associated with\<newline>'' @
   ''this prompt. Each example contains the input, the final answer produced by the model, and the user feedback.\<newline>'' @
   ''Your task is to analyze the examples, determining whether the\<newline>'' @
   ''existing prompt is decsribing the task reflected by these examples precisely, and suggest\<newline>'' @
   ''changes to the prompt.\<newline>'' @
   ''\<newline>'' @
   ''## Step 2\<newline>'' @
   ''Next, you will carefully review your reasoning in step 1, integrate the insights to craft a\<newline>'' @
   ''new, optimized prompt.''\<rparr>\<close>

definition acknowledgment_turn :: message where
  "acknowledgment_turn = \<lparr>role = ''assistant'', content =
   ''Sure, I'' @ [CHR 0xE2, CHR 0x80, CHR 0x99] @ ''d be happy to help you with this prompt engineering problem. '' @
   ''Please provide me with the current prompt, the full template, and the examples.''\<rparr>"

definition critique_turn :: "skill \<Rightarrow> string \<Rightarrow> message" where
  "critique_turn sk examples = \<lparr>role = ''user'', content =
   ''\<newline>'' @
   ''## Current Prompt\<newline>'' @
   instructions sk @
   ''\<newline>'' @
   ''\<newline>'' @
   ''## Full Template\<newline>'' @
   ''{current prompt}\<newline>'' @
   input_template sk @
   ''\<newline>'' @
   output_template sk @
   ''\<newline>'' @
   ''\<newline>'' @
   ''## Examples\<newline>'' @
   examples @
   ''\<newline>'' @
   ''\<newline>'' @
   ''## Instructions\<newline>'' @
   ''For some of these examples, the user feedback points out that the model is not producing the correct output. This may be due to the prompt being misleading or not describing the task precisely.\<newline>'' @
   ''\<newline>'' @
   ''Please examine the example(s) carefully. Note that the user feedback should be considered as ground truth, but the prompts (task descriptions) may be incorrect and need modification.\<newline>'' @
   ''For each example, provide reasoning according to the following template:\<newline>'' @
   ''\<newline>'' @
   ''### Example <id>\<newline>'' @
   ''Input: <input>\<newline>'' @
   ''Output: <output>\<newline>'' @
   ''Feedback: <feedback>\<newline>'' @
   ''Is the output correct according to the feedback: <yes or no, and your reasoning>\<newline>'' @
   ''To output the correct label, is it necessary to edit the prompt: <yes or no, and your\<newline>'' @
   ''reasoning>\<newline>'' @
   ''If yes, provide detailed analysis and actionable suggestions to edit the prompt: <analysis and\<newline>'' @
   ''suggestions>\<newline>''\<rparr>"

definition rewrite_turn :: "skill \<Rightarrow> message" where
  "rewrite_turn sk = \<lparr>role = ''user'', content =
   ''\<newline>'' @
   ''Now please carefully review your reasoning in Step 1 and help with Step 2: refining the prompt.\<newline>'' @
   ''\<newline>'' @
   ''## Current prompt\<newline>'' @
   instructions sk @
   ''\<newline>'' @
   ''\<newline>'' @
   ''## Instructions\<newline>'' @
   ''\<newline>'' @
   ''- The new prompt should be concise and direct.\<newline>'' @
   ''- The new prompt should should describe the task precisely and address the points raised in the user feedback.\<newline>'' @
   ''- Include a few examples in the prompt to help the model learn the task, by providing inputs and outputs that follow full template.\<newline>'' @
   ''- Reply only with the prompt. Do not include other text.\<newline>''\<rparr>"

text \<open>
  The four turns that \<open>messages\<close> holds at the first \<open>execute\<close> (lines 231 to 302), and
  the two that lines 306 to 324 append to it.
\<close>

definition critique_messages :: "skill \<Rightarrow> string \<Rightarrow> dialogue" where
  "critique_messages sk examples =
     [system_turn, task_turn, acknowledgment_turn, critique_turn sk examples]"

definition rewrite_messages :: "skill \<Rightarrow> string \<Rightarrow> string \<Rightarrow> dialogue" where
  "rewrite_messages sk examples reasoning =
     critique_messages sk examples @ [\<lparr>role = ''assistant'', content = reasoning\<rparr>, rewrite_turn sk]"

text \<open>
  \<open>pe_optimization skill examples teacher_runtime\<close>, with the log of teacher calls before
  and after. Each \<open>execute\<close> appends the dialogue it receives to the log; when it raises,
  the exception leaves the method. The second answer is returned as it is.
\<close>

definition pe_optimization ::
  "skill \<Rightarrow> string \<Rightarrow> teacher \<Rightarrow> dialogue list \<Rightarrow> (pyerr + string) \<times> dialogue list" where
  "pe_optimization sk examples teacher_runtime calls =
    (let messages = critique_messages sk examples in
     case teacher_runtime calls messages of
       Inl e \<Rightarrow> (Inl e, calls @ [messages])
     | Inr reasoning \<Rightarrow>
        (let messages2 = rewrite_messages sk examples reasoning;
             new_prompt = teacher_runtime (calls @ [messages]) messages2
         in (new_prompt, calls @ [messages, messages2])))"

subsection \<open>\<open>learn\<close>\<close>

text \<open>
  The loop over the records of \<open>analyzed_df\<close> (lines 385 to 395): a row whose feedback
  cell \<open>row[train_skill_output + "__fb"]\<close> is falsy is skipped, any other row adds one
  example. The subscript raises \<open>KeyError\<close> when the row has no such column, and an
  exception of \<open>format\<close> leaves the loop.
\<close>

fun examples_loop :: "skill \<Rightarrow> string \<Rightarrow> row list \<Rightarrow> string list \<Rightarrow> pyerr + string list" where
  "examples_loop train_skill train_skill_output [] examples = Inr examples"
| "examples_loop train_skill train_skill_output (r # rows) examples =
     (case r (train_skill_output @ ''__fb'') of
        None \<Rightarrow> Inl (KeyError (train_skill_output @ ''__fb''))
      | Some fb \<Rightarrow>
          if \<not> truthy fb then examples_loop train_skill train_skill_output rows examples
          else
            (case py_format (input_template train_skill) r of
               Inl e \<Rightarrow> Inl e
             | Inr inp \<Rightarrow>
                (case py_format (output_template train_skill) r of
                   Inl e \<Rightarrow> Inl e
                 | Inr outp \<Rightarrow>
                     examples_loop train_skill train_skill_output rows
                       (examples @ [inp @ ''\<newline>'' @ outp @ ''\<newline>'' @
                                    ''Feedback: '' @ py_str fb @ ''\<newline>\<newline>'']))))"

definition build_examples :: "skill \<Rightarrow> string \<Rightarrow> row list \<Rightarrow> pyerr + string list" where
  "build_examples train_skill train_skill_output rows =
     examples_loop train_skill train_skill_output rows []"

text \<open>
  The state of a run of \<open>learn\<close>: the agent (its skills are rewritten) and the log of
  teacher calls.
\<close>

type_synonym 'r state = "'r agent \<times> dialogue list"

definition set_instructions :: "'r agent \<Rightarrow> string \<Rightarrow> skill \<Rightarrow> string \<Rightarrow> 'r agent" where
  "set_instructions self train_skill_name train_skill new_instructions =
     self\<lparr>skills := (skills self)\<lparr>skillset_skills :=
       (skillset_skills (skills self))(train_skill_name \<mapsto> train_skill\<lparr>instructions := new_instructions\<rparr>)\<rparr>\<rparr>"

text \<open>One pass of the body of the \<open>for\<close> loop (lines 357 to 401).\<close>

definition learn_iteration ::
  "'r \<Rightarrow> teacher \<Rightarrow> pyfloat \<Rightarrow> int option \<Rightarrow> int option \<Rightarrow> nat \<Rightarrow> 'r state \<Rightarrow> (pyerr + unit) \<times> 'r state" where
  "learn_iteration runtime teacher_runtime accuracy_threshold batch_size num_feedbacks iteration st =
    (case st of (self, calls) \<Rightarrow>
      (let d = environment self runtime batch_size num_feedbacks iteration (skills self) in
       case select_skill_to_train self (it_feedback d) accuracy_threshold of
         Inl e \<Rightarrow> (Inl e, st)
       | Inr (train_skill_name, train_skill_output, accuracy) \<Rightarrow>
          if train_skill_name = [] then (Inr (), st)
          else
            (case skillset_skills (skills self) train_skill_name of
               None \<Rightarrow> (Inl (KeyError train_skill_name), st)
             | Some train_skill \<Rightarrow>
                (case build_examples train_skill train_skill_output (analyzed_df d) of
                   Inl e \<Rightarrow> (Inl e, st)
                 | Inr examples \<Rightarrow>
                    (case pe_optimization train_skill (join_nl examples) teacher_runtime calls of
                       (Inl e, calls') \<Rightarrow> (Inl e, (self, calls'))
                     | (Inr new_instructions, calls') \<Rightarrow>
                         (Inr (), (set_instructions self train_skill_name train_skill new_instructions, calls')))))))"

text \<open>The \<open>for\<close> loop over \<open>range(learning_iterations)\<close>: an exception ends it.\<close>

fun learn_loop ::
  "'r \<Rightarrow> teacher \<Rightarrow> pyfloat \<Rightarrow> int option \<Rightarrow> int option \<Rightarrow> nat list \<Rightarrow> 'r state \<Rightarrow> (pyerr + unit) \<times> 'r state" where
  "learn_loop runtime teacher_runtime accuracy_threshold batch_size num_feedbacks [] st = (Inr (), st)"
| "learn_loop runtime teacher_runtime accuracy_threshold batch_size num_feedbacks (iteration # its) st =
     (case learn_iteration runtime teacher_runtime accuracy_threshold batch_size num_feedbacks iteration st of
        (Inl e, st') \<Rightarrow> (Inl e, st')
      | (Inr u, st') \<Rightarrow>
          learn_loop runtime teacher_runtime accuracy_threshold batch_size num_feedbacks its st')"

text \<open>
  \<open>learn\<close>; \<open>range(n)\<close> is empty for \<open>n \<le> 0\<close>. The parameter \<open>update_memory\<close> is never read.
\<close>

definition learn ::
  "int \<Rightarrow> pyfloat \<Rightarrow> int option \<Rightarrow> int option \<Rightarrow> string option \<Rightarrow> string option \<Rightarrow> 'r state
     \<Rightarrow> (pyerr + unit) \<times> 'r state" where
  "learn learning_iterations accuracy_threshold batch_size num_feedbacks runtime teacher_runtime st =
    (case get_runtime (fst st) runtime of
       Inl e \<Rightarrow> (Inl e, st)
     | Inr rt \<Rightarrow>
        (case get_teacher_runtime (fst st) teacher_runtime of
           Inl e \<Rightarrow> (Inl e, st)
         | Inr trt \<Rightarrow>
             learn_loop rt trt accuracy_threshold batch_size num_feedbacks
               [0 ..< nat learning_iterations] st))"

subsection \<open>Scenarios\<close>

text \<open>
  Concrete skills, tables, teachers and agents, on which the theorems are evaluated: the
  skill \<open>summarize\<close> with output \<open>summary\<close> of the end-to-end scenarios, and a second skill
  \<open>classify\<close> with output \<open>label\<close>.
\<close>

definition summarize :: skill where
  "summarize = \<lparr>name = ''summarize'', instructions = ''Summarize the text.'',
     input_template = ''Text: {text}'', output_template = ''Summary: {summary}''\<rparr>"

definition classify :: skill where
  "classify = \<lparr>name = ''classify'', instructions = ''Classify the text.'',
     input_template = ''Text: {text}'', output_template = ''Label: {label}''\<rparr>"

definition one_skill :: skillset where
  "one_skill = \<lparr>skillset_skills = [''summarize'' \<mapsto> summarize],
     get_skill_outputs = [(''summary'', ''summarize'')]\<rparr>"

definition two_skills :: skillset where
  "two_skills = \<lparr>skillset_skills = [''summarize'' \<mapsto> summarize, ''classify'' \<mapsto> classify],
     get_skill_outputs = [(''summary'', ''summarize''), (''label'', ''classify'')]\<rparr>"

definition row_with_feedback :: row where
  "row_with_feedback = [''text'' \<mapsto> PStr ''abc'', ''summary'' \<mapsto> PStr ''a'',
     ''summary__fb'' \<mapsto> PStr ''Too short.'']"

definition row_without_feedback :: row where
  "row_without_feedback = [''text'' \<mapsto> PStr ''def'', ''summary'' \<mapsto> PStr ''d'',
     ''summary__fb'' \<mapsto> PNone]"

definition row_nan_feedback :: row where
  "row_nan_feedback = [''text'' \<mapsto> PStr ''ghi'', ''summary'' \<mapsto> PStr ''g'',
     ''summary__fb'' \<mapsto> PNaN]"

definition row_missing_text :: row where
  "row_missing_text = [''summary'' \<mapsto> PStr ''a'', ''summary__fb'' \<mapsto> PStr ''Too short.'']"

definition table_data :: "(string \<rightharpoonup> pyfloat) \<Rightarrow> row list \<Rightarrow> iteration_data" where
  "table_data acc rows =
     \<lparr>it_feedback = \<lparr>feedback = [], get_accuracy = acc\<rparr>, analyzed_df = rows\<rparr>"

text \<open>An agent whose environment delivers the same data in every iteration.\<close>

definition static_agent :: "skillset \<Rightarrow> iteration_data \<Rightarrow> teacher \<Rightarrow> unit agent" where
  "static_agent sks d t =
     \<lparr>environment = (\<lambda>rt bs nf i s. d), skills = sks,
      runtimes = Some [(''openai'', ())], teacher_runtimes = Some [(''openai-gpt3'', t)],
      default_runtime = ''openai'', default_teacher_runtime = ''openai-gpt3''\<rparr>"

text \<open>
  Teachers: one whose every call raises, one that answers every call with the empty
  text, and one that answers.
\<close>

definition raising_teacher :: teacher where
  "raising_teacher calls d = Inl (RuntimeFailure ''timeout'')"

definition silent_teacher :: teacher where
  "silent_teacher calls d = Inr []"

definition helpful_teacher :: teacher where
  "helpful_teacher calls d = (if even (length calls) then Inr ''The summary is too short.''
                              else Inr ''Summarize the text in two sentences.'')"

text \<open>A teacher that answers its first three calls like \<open>helpful_teacher\<close> and then raises.\<close>

definition tiring_teacher :: teacher where
  "tiring_teacher calls d = (if length calls < 3 then helpful_teacher calls d
                             else Inl (RuntimeFailure ''timeout''))"

section \<open>Properties\<close>

lemmas model_defs = learn_def get_runtime_def get_teacher_runtime_def learn_iteration_def
  select_skill_to_train_def build_examples_def pe_optimization_def set_instructions_def Let_def
  py_format_def format_field_def plain_name_def is_digit_def prepend_def rewrite_messages_def
  verify_input_parameters_def raise_default_runtime_error_def new_agent_def

lemmas scenario_defs = static_agent_def table_data_def one_skill_def two_skills_def summarize_def
  classify_def row_with_feedback_def row_without_feedback_def row_nan_feedback_def
  row_missing_text_def raising_teacher_def silent_teacher_def helpful_teacher_def
  tiring_teacher_def

subsection \<open>Auxiliary facts about the loops\<close>

lemma select_loop_skip:
  assumes "\<forall>(out, sn) \<in> set pre. \<exists>b. accuracy out = Some b \<and> \<not> float_lt b thr"
  shows "select_loop accuracy thr (pre @ rest) = select_loop accuracy thr rest"
  using assms by (induction pre) auto

lemma select_loop_all_pass:
  assumes "\<forall>(out, sn) \<in> set outs. \<exists>a. accuracy out = Some (Float a) \<and> t \<le> a"
  shows "select_loop accuracy (Float t) outs = Inr ([], [], None)"
  using assms by (induction outs) auto

lemma pe_optimization_raises:
  assumes "teacher calls (critique_messages sk examples) = Inl e
           \<or> (\<exists>reasoning. teacher calls (critique_messages sk examples) = Inr reasoning
                \<and> teacher (calls @ [critique_messages sk examples])
                     (critique_messages sk examples @
                        [\<lparr>role = ''assistant'', content = reasoning\<rparr>, rewrite_turn sk]) = Inl e)"
  shows "fst (pe_optimization sk examples teacher calls) = Inl e"
  using assms by (auto simp add: pe_optimization_def rewrite_messages_def Let_def)

text \<open>
  \<open>format\<close> raises \<open>KeyError\<close> only for a field that the row lacks, and it does raise it for
  the first replacement field of a template when the row lacks that field.
\<close>

text \<open>Positional fields: the index is printed in decimal, and bounded.\<close>

lemma py_format_positional_field:
  "py_format ''a{}'' r =
     Inl (IndexError ''Replacement index 0 out of range for positional args tuple'')
   \<and> py_format ''{007}'' r =
     Inl (IndexError ''Replacement index 7 out of range for positional args tuple'')
   \<and> py_format ''{9223372036854775807}'' r =
     Inl (IndexError ''Replacement index 9223372036854775807 out of range for positional args tuple'')
   \<and> py_format ''{9223372036854775808}'' r =
     Inl (ValueError ''Too many decimal digits in format string'')"
  by (simp add: py_format_def format_field_def plain_name_def is_digit_def digits_value_def
        prepend_def show_nat.simps)

lemma prepend_Inl: "prepend s res = Inl e \<longleftrightarrow> res = Inl e"
  by (simp add: prepend_def split: sum.splits)

lemma format_from_KeyError:
  "format_from r fld cs = Inl (KeyError f) \<Longrightarrow> r f = None"
  by (induction r fld cs rule: format_from.induct)
     (auto simp add: prepend_Inl format_field_def
           split: if_splits list.splits sum.splits option.splits)

lemma py_format_KeyError: "py_format template r = Inl (KeyError f) \<Longrightarrow> r f = None"
  unfolding py_format_def by (rule format_from_KeyError)

lemma format_from_literal:
  assumes "CHR ''{'' \<notin> set lit" and "CHR ''}'' \<notin> set lit"
  shows "format_from r None (lit @ rest) = prepend lit (format_from r None rest)"
  using assms by (induction lit) (auto simp add: prepend_def split: sum.splits)

lemma format_from_name:
  assumes "CHR ''}'' \<notin> set g"
  shows "format_from r (Some f) (g @ CHR ''}'' # rest) =
     (case format_field r (f @ g) of
        Inl e \<Rightarrow> Inl e
      | Inr s \<Rightarrow> prepend s (format_from r None rest))"
  using assms by (induction g arbitrary: f) auto

lemma py_format_absent_field:
  assumes "CHR ''{'' \<notin> set lit" and "CHR ''}'' \<notin> set lit"
    and "f \<noteq> []" and "CHR ''}'' \<notin> set f" and "plain_name f" and "\<not> list_all is_digit f"
    and "r f = None"
  shows "py_format (lit @ ''{'' @ f @ ''}'' @ rest) r = Inl (KeyError f)"
proof -
  obtain c g where f: "f = c # g"
    using \<open>f \<noteq> []\<close> by (cases f) auto
  have c: "c \<noteq> CHR ''{''"
    using \<open>plain_name f\<close> f by (simp add: plain_name_def)
  have "format_from r None (''{'' @ f @ ''}'' @ rest) = format_from r (Some []) (f @ CHR ''}'' # rest)"
    using c f by simp
  also have "\<dots> = Inl (KeyError f)"
    using assms by (simp add: format_from_name format_field_def)
  finally show ?thesis
    using assms(1,2) by (simp add: py_format_def format_from_literal prepend_def)
qed

lemma examples_loop_skip_all:
  assumes "\<forall>r \<in> set rows. \<exists>v. r (out @ ''__fb'') = Some v \<and> \<not> truthy v"
  shows "examples_loop sk out rows acc = Inr acc"
  using assms by (induction rows) auto

lemma examples_loop_append:
  "examples_loop sk out (pre @ rest) acc =
     (case examples_loop sk out pre acc of
        Inl e \<Rightarrow> Inl e
      | Inr acc' \<Rightarrow> examples_loop sk out rest acc')"
  by (induction pre arbitrary: acc) (auto split: option.splits sum.splits)

text \<open>
  When the loop over the rows ends without an exception, it has added one example for
  each row whose feedback cell is truthy.
\<close>

lemma examples_loop_length:
  "examples_loop sk out rows acc = Inr exs \<Longrightarrow>
     length exs = length acc +
       length (filter (\<lambda>r. case r (out @ ''__fb'') of None \<Rightarrow> False | Some v \<Rightarrow> truthy v) rows)"
  by (induction rows arbitrary: acc) (auto split: option.splits sum.splits if_splits)

lemma build_examples_render_error:
  assumes "build_examples sk out pre = Inr exs"
    and "r (out @ ''__fb'') = Some v" and "truthy v"
    and "py_format (input_template sk) r = Inl e
         \<or> (\<exists>inp. py_format (input_template sk) r = Inr inp
               \<and> py_format (output_template sk) r = Inl e)"
  shows "build_examples sk out (pre @ r # post) = Inl e"
  using assms by (auto simp add: build_examples_def examples_loop_append)

lemma learn_loop_append:
  "learn_loop rt teacher thr bs nf (xs @ ys) st =
     (case learn_loop rt teacher thr bs nf xs st of
        (Inl e, st') \<Rightarrow> (Inl e, st')
      | (Inr u, st') \<Rightarrow> learn_loop rt teacher thr bs nf ys st')"
  by (induction xs arbitrary: st) (auto split: prod.splits sum.splits)

text \<open>
  An exception in iteration \<open>i\<close> is the result of \<open>learn\<close>: the iterations after \<open>i\<close> do
  not run.
\<close>

lemma learn_aborts_at:
  assumes "get_runtime (fst st0) rtn = Inr rt"
    and "get_teacher_runtime (fst st0) tn = Inr teacher"
    and "i < nat n"
    and "learn_loop rt teacher thr bs nf [0 ..< i] st0 = (Inr (), st)"
    and "learn_iteration rt teacher thr bs nf i st = (Inl e, st')"
  shows "learn n thr bs nf rtn tn st0 = (Inl e, st')"
proof -
  from \<open>i < nat n\<close> have "[0 ..< nat n] = [0 ..< i] @ [i ..< nat n]"
    using upt_add_eq_append [of 0 i "nat n - i"] by simp
  with \<open>i < nat n\<close> have "[0 ..< nat n] = [0 ..< i] @ i # [Suc i ..< nat n]"
    by (simp add: upt_conv_Cons)
  then show ?thesis
    using assms by (simp add: learn_def learn_loop_append)
qed

subsection \<open>The skill selector\<close>

text \<open>
  C2 (amended). When the items of \<open>get_skill_outputs()\<close> are \<open>pre @ (out, sn) # post\<close>, the
  accuracy of \<open>out\<close> is strictly below the threshold and every output of \<open>pre\<close> has an
  accuracy entry that is not below the threshold, \<open>select_skill_to_train\<close> returns the
  owning skill name \<open>sn\<close>, the output \<open>out\<close> and its accuracy: the first output below the
  threshold in iteration order, whatever the accuracies after it are.
\<close>

theorem select_first_below_threshold:
  assumes "get_skill_outputs (skills self) = pre @ (out, sn) # post"
    and "\<forall>(out', sn') \<in> set pre. \<exists>b. get_accuracy fb out' = Some b \<and> \<not> float_lt b thr"
    and "get_accuracy fb out = Some a"
    and "float_lt a thr"
  shows "select_skill_to_train self fb thr = Inr (sn, out, Some a)"
  using assms by (simp add: select_skill_to_train_def select_loop_skip)

text \<open>
  The theorem on two mappings. In the first, \<open>summary\<close> passes and \<open>label\<close> is selected. In
  the second both outputs are below the threshold and \<open>label\<close> has the lower accuracy:
  \<open>summary\<close>, the first in order, is selected.
\<close>

theorem select_first_below_threshold_witness:
  "select_skill_to_train (static_agent two_skills (table_data Map.empty []) raising_teacher)
      \<lparr>feedback = [], get_accuracy = [''summary'' \<mapsto> Float 0.95, ''label'' \<mapsto> Float 0.5]\<rparr> (Float 0.9)
     = Inr (''classify'', ''label'', Some (Float 0.5))
   \<and> select_skill_to_train (static_agent two_skills (table_data Map.empty []) raising_teacher)
      \<lparr>feedback = [], get_accuracy = [''summary'' \<mapsto> Float 0.5, ''label'' \<mapsto> Float 0.2]\<rparr> (Float 0.9)
     = Inr (''summarize'', ''summary'', Some (Float 0.5))"
proof -
  let ?self = "static_agent two_skills (table_data Map.empty []) raising_teacher"
  let ?fb1 = "\<lparr>feedback = [], get_accuracy = [''summary'' \<mapsto> Float 0.95, ''label'' \<mapsto> Float 0.5]\<rparr>"
  let ?fb2 = "\<lparr>feedback = [], get_accuracy = [''summary'' \<mapsto> Float 0.5, ''label'' \<mapsto> Float 0.2]\<rparr>"
  have "select_skill_to_train ?self ?fb1 (Float 0.9) = Inr (''classify'', ''label'', Some (Float 0.5))"
    by (rule select_first_below_threshold
          [where pre = "[(''summary'', ''summarize'')]" and post = "[]"])
       (simp_all add: static_agent_def two_skills_def)
  moreover
  have "select_skill_to_train ?self ?fb2 (Float 0.9) = Inr (''summarize'', ''summary'', Some (Float 0.5))"
    by (rule select_first_below_threshold
          [where pre = "[]" and post = "[(''label'', ''classify'')]"])
       (simp_all add: static_agent_def two_skills_def)
  ultimately show ?thesis by simp
qed

text \<open>
  C2, as stated, fails when an output without an accuracy entry comes first: \<open>label\<close> has
  accuracy 0.5, below the threshold 0.9, but \<open>summary\<close> is looked up before it and the
  lookup raises \<open>KeyError\<close>.
\<close>

theorem select_first_below_threshold_counterexample:
  "get_accuracy \<lparr>feedback = [], get_accuracy = [''label'' \<mapsto> Float 0.5]\<rparr> ''label'' = Some (Float 0.5)
   \<and> float_lt (Float 0.5) (Float 0.9)
   \<and> select_skill_to_train (static_agent two_skills (table_data Map.empty []) raising_teacher)
        \<lparr>feedback = [], get_accuracy = [''label'' \<mapsto> Float 0.5]\<rparr> (Float 0.9)
      = Inl (KeyError ''summary'')"
  by (simp add: select_skill_to_train_def static_agent_def two_skills_def)

text \<open>
  C10. When the items of \<open>get_skill_outputs()\<close> are \<open>pre @ (out, sn) # post\<close>, the accuracy
  mapping has no entry for \<open>out\<close> and every output of \<open>pre\<close> has an accuracy that is not
  below the threshold, so that \<open>out\<close> is reached, \<open>select_skill_to_train\<close> raises
  \<open>KeyError(out)\<close>: it returns neither a selection nor the empty triple.
\<close>

theorem select_missing_accuracy_raises:
  assumes "get_skill_outputs (skills self) = pre @ (out, sn) # post"
    and "\<forall>(out', sn') \<in> set pre. \<exists>b. get_accuracy fb out' = Some b \<and> \<not> float_lt b thr"
    and "get_accuracy fb out = None"
  shows "select_skill_to_train self fb thr = Inl (KeyError out)"
  using assms by (simp add: select_skill_to_train_def select_loop_skip)

text \<open>
  The theorem where \<open>summary\<close> passes and \<open>label\<close>, the second output, has no accuracy.
\<close>

theorem select_missing_accuracy_raises_witness:
  "get_accuracy \<lparr>feedback = [], get_accuracy = [''summary'' \<mapsto> Float 0.95]\<rparr> ''label'' = None
   \<and> select_skill_to_train (static_agent two_skills (table_data Map.empty []) helpful_teacher)
        \<lparr>feedback = [], get_accuracy = [''summary'' \<mapsto> Float 0.95]\<rparr> (Float 0.9)
      = Inl (KeyError ''label'')"
proof -
  have "select_skill_to_train (static_agent two_skills (table_data Map.empty []) helpful_teacher)
        \<lparr>feedback = [], get_accuracy = [''summary'' \<mapsto> Float 0.95]\<rparr> (Float 0.9)
      = Inl (KeyError ''label'')"
    by (rule select_missing_accuracy_raises
          [where pre = "[(''summary'', ''summarize'')]" and post = "[]" and sn = "''classify''"])
       (simp_all add: static_agent_def two_skills_def)
  then show ?thesis by simp
qed

text \<open>
  C3. When every output of \<open>get_skill_outputs()\<close> has an accuracy that is a number greater
  than or equal to the threshold, \<open>select_skill_to_train\<close> returns the empty triple
  \<open>("", "", None)\<close>, and the iteration of \<open>learn\<close> ends without an exception and leaves the
  agent and the log of teacher calls as they were, whatever the rows of the table are:
  no example is built, the teacher is not called, no instructions are written.
\<close>

theorem no_selection_no_change:
  assumes "\<forall>(out, sn) \<in> set (get_skill_outputs (skills self)).
             \<exists>a. get_accuracy (it_feedback (environment self rt bs nf i (skills self))) out
                    = Some (Float a) \<and> t \<le> a"
  shows "select_skill_to_train self (it_feedback (environment self rt bs nf i (skills self))) (Float t)
           = Inr ([], [], None)
         \<and> learn_iteration rt teacher (Float t) bs nf i (self, calls) = (Inr (), (self, calls))"
proof -
  have "select_skill_to_train self (it_feedback (environment self rt bs nf i (skills self))) (Float t)
           = Inr ([], [], None)"
    unfolding select_skill_to_train_def using assms by (rule select_loop_all_pass)
  then show ?thesis by (simp add: learn_iteration_def)
qed

text \<open>
  The theorem on scenario B: threshold 0.9 and accuracy 0.95 for \<open>summary\<close>. The table
  holds a row on which the input template would fail and the teacher would raise;
  neither happens.
\<close>

theorem no_selection_no_change_witness:
  "select_skill_to_train
      (static_agent one_skill (table_data [''summary'' \<mapsto> Float 0.95] [row_missing_text]) raising_teacher)
      \<lparr>feedback = [], get_accuracy = [''summary'' \<mapsto> Float 0.95]\<rparr> (Float 0.9)
     = Inr ([], [], None)
   \<and> learn_iteration () raising_teacher (Float 0.9) None None 0
       (static_agent one_skill (table_data [''summary'' \<mapsto> Float 0.95] [row_missing_text]) raising_teacher, [])
     = (Inr (),
        (static_agent one_skill (table_data [''summary'' \<mapsto> Float 0.95] [row_missing_text]) raising_teacher, []))"
proof -
  let ?self = "static_agent one_skill (table_data [''summary'' \<mapsto> Float 0.95] [row_missing_text]) raising_teacher"
  have passes: "\<forall>(out, sn) \<in> set (get_skill_outputs (skills ?self)).
             \<exists>a. get_accuracy (it_feedback (environment ?self () None None 0 (skills ?self))) out
                    = Some (Float a) \<and> 0.9 \<le> a"
    by (auto simp add: static_agent_def table_data_def one_skill_def intro!: exI [of _ "0.95"])
  from no_selection_no_change [where teacher = raising_teacher and calls = "[]", OF passes]
  show ?thesis
    by (simp add: static_agent_def table_data_def)
qed

subsection \<open>The prompt refiner\<close>

text \<open>
  C4 (amended). When the first call to the teacher runtime returns a text \<open>reasoning\<close>,
  \<open>pe_optimization\<close> issues exactly two calls. The dialogue of the second call is the
  dialogue of the first followed by exactly two turns: an assistant turn whose content
  is \<open>reasoning\<close>, and the user turn that asks for the rewrite. What the second call
  yields is what \<open>pe_optimization\<close> yields, unchanged.
\<close>

theorem pe_optimization_two_calls:
  assumes "teacher calls (critique_messages sk examples) = Inr reasoning"
  shows "snd (pe_optimization sk examples teacher calls) =
           calls @ [critique_messages sk examples,
                    critique_messages sk examples @
                      [\<lparr>role = ''assistant'', content = reasoning\<rparr>, rewrite_turn sk]]
         \<and> role (rewrite_turn sk) = ''user''
         \<and> fst (pe_optimization sk examples teacher calls) =
             teacher (calls @ [critique_messages sk examples])
                     (critique_messages sk examples @
                        [\<lparr>role = ''assistant'', content = reasoning\<rparr>, rewrite_turn sk])"
  using assms by (simp add: pe_optimization_def rewrite_messages_def rewrite_turn_def Let_def)

text \<open>The theorem on a teacher that answers both calls.\<close>

theorem pe_optimization_two_calls_witness:
  "helpful_teacher [] (critique_messages summarize ''ex'') = Inr ''The summary is too short.''
   \<and> snd (pe_optimization summarize ''ex'' helpful_teacher []) =
       [critique_messages summarize ''ex'',
        critique_messages summarize ''ex'' @
          [\<lparr>role = ''assistant'', content = ''The summary is too short.''\<rparr>, rewrite_turn summarize]]
   \<and> fst (pe_optimization summarize ''ex'' helpful_teacher []) =
       Inr ''Summarize the text in two sentences.''"
proof -
  have first: "helpful_teacher [] (critique_messages summarize ''ex'') = Inr ''The summary is too short.''"
    by (simp add: helpful_teacher_def)
  from pe_optimization_two_calls [where teacher = helpful_teacher and calls = "[]", OF first] first
  show ?thesis
    by (simp add: helpful_teacher_def)
qed

text \<open>
  C4, as stated, fails when the first call raises: the exception leaves
  \<open>pe_optimization\<close> and one call has been issued, not two.
\<close>

theorem pe_optimization_two_calls_counterexample:
  "pe_optimization summarize ''ex'' raising_teacher [] =
     (Inl (RuntimeFailure ''timeout''), [critique_messages summarize ''ex''])
   \<and> length (snd (pe_optimization summarize ''ex'' raising_teacher [])) = 1"
  by (simp add: pe_optimization_def raising_teacher_def)

subsection \<open>Building the training examples\<close>

text \<open>
  C5. A row whose feedback cell is NaN is not skipped: \<open>not row[...]\<close> is false for NaN,
  so the row yields an example block with the feedback text \<open>nan\<close>. A row whose feedback
  cell is \<open>None\<close> is skipped.
\<close>

theorem nan_feedback_row_not_skipped:
  "build_examples summarize ''summary'' [row_with_feedback, row_without_feedback, row_nan_feedback] =
     Inr [''Text: abc\<newline>Summary: a\<newline>Feedback: Too short.\<newline>\<newline>'',
          ''Text: ghi\<newline>Summary: g\<newline>Feedback: nan\<newline>\<newline>'']"
  by (simp add: model_defs scenario_defs)

subsection \<open>The learning loop\<close>

text \<open>
  C9. In an iteration where a skill is selected and every row of the table has a falsy
  feedback cell for the selected output, no example is built, and \<open>pe_optimization\<close> is
  still called, with the empty text as examples: the iteration is what this call makes
  of it, and the teacher receives the dialogue built from the empty examples text.
\<close>

theorem empty_examples_still_refined:
  assumes "select_skill_to_train self (it_feedback (environment self rt bs nf i (skills self))) thr
           = Inr (sn, out, acc)"
    and "sn \<noteq> []"
    and "skillset_skills (skills self) sn = Some sk"
    and "\<forall>r \<in> set (analyzed_df (environment self rt bs nf i (skills self))).
           \<exists>v. r (out @ ''__fb'') = Some v \<and> \<not> truthy v"
  shows "build_examples sk out (analyzed_df (environment self rt bs nf i (skills self))) = Inr []
    \<and> learn_iteration rt teacher thr bs nf i (self, calls) =
       (case pe_optimization sk [] teacher calls of
          (Inl e, calls') \<Rightarrow> (Inl e, (self, calls'))
        | (Inr new_instructions, calls') \<Rightarrow>
            (Inr (), (set_instructions self sn sk new_instructions, calls')))
    \<and> (\<exists>more. snd (snd (learn_iteration rt teacher thr bs nf i (self, calls)))
                 = calls @ critique_messages sk [] # more)"
proof -
  have b: "build_examples sk out (analyzed_df (environment self rt bs nf i (skills self))) = Inr []"
    unfolding build_examples_def using assms(4) by (rule examples_loop_skip_all)
  have it: "learn_iteration rt teacher thr bs nf i (self, calls) =
       (case pe_optimization sk [] teacher calls of
          (Inl e, calls') \<Rightarrow> (Inl e, (self, calls'))
        | (Inr new_instructions, calls') \<Rightarrow>
            (Inr (), (set_instructions self sn sk new_instructions, calls')))"
    using assms(1-3) b by (simp add: learn_iteration_def)
  have "\<exists>more. snd (pe_optimization sk [] teacher calls) = calls @ critique_messages sk [] # more"
    by (simp add: pe_optimization_def Let_def split: sum.splits)
  then have "\<exists>more. snd (snd (learn_iteration rt teacher thr bs nf i (self, calls)))
                 = calls @ critique_messages sk [] # more"
    unfolding it by (auto split: prod.splits sum.splits)
  with b it show ?thesis by simp
qed

text \<open>
  The theorem on a table whose only row has no feedback: the teacher is called twice and
  its second answer becomes the instructions of \<open>summarize\<close>.
\<close>

theorem empty_examples_still_refined_witness:
  "build_examples summarize ''summary'' [row_without_feedback] = Inr []
   \<and> learn_iteration () helpful_teacher (Float 0.9) None None 0
       (static_agent one_skill (table_data [''summary'' \<mapsto> Float 0.5] [row_without_feedback]) helpful_teacher, [])
     = (Inr (),
        (set_instructions
           (static_agent one_skill (table_data [''summary'' \<mapsto> Float 0.5] [row_without_feedback]) helpful_teacher)
           ''summarize'' summarize ''Summarize the text in two sentences.'',
         [critique_messages summarize [],
          critique_messages summarize [] @
            [\<lparr>role = ''assistant'', content = ''The summary is too short.''\<rparr>, rewrite_turn summarize]]))"
proof -
  let ?self = "static_agent one_skill (table_data [''summary'' \<mapsto> Float 0.5] [row_without_feedback]) helpful_teacher"
  have sel: "select_skill_to_train ?self (it_feedback (environment ?self () None None 0 (skills ?self))) (Float 0.9)
           = Inr (''summarize'', ''summary'', Some (Float 0.5))"
    by (simp add: select_skill_to_train_def static_agent_def table_data_def one_skill_def)
  have sk: "skillset_skills (skills ?self) ''summarize'' = Some summarize"
    by (simp add: static_agent_def one_skill_def)
  have rows: "\<forall>r \<in> set (analyzed_df (environment ?self () None None 0 (skills ?self))).
           \<exists>v. r (''summary'' @ ''__fb'') = Some v \<and> \<not> truthy v"
    by (simp add: static_agent_def table_data_def row_without_feedback_def)
  from empty_examples_still_refined [where teacher = helpful_teacher and calls = "[]", OF sel _ sk rows]
  show ?thesis
    by (simp add: static_agent_def table_data_def pe_optimization_def rewrite_messages_def
          helpful_teacher_def Let_def)
qed

text \<open>
  C1 (amended). Let iteration \<open>i\<close> of \<open>learn\<close> be reached (the iterations before it ended
  without an exception, in the state \<open>(self, calls)\<close>), let a skill be selected and the
  examples be built in it, and let the teacher runtime raise \<open>e\<close> in the first or in the
  second call of \<open>pe_optimization\<close>. Then \<open>learn\<close> ends with the exception \<open>e\<close>. The agent
  is the one before the failed call: the instructions of the selected skill, and of
  every other skill, are unchanged by it. The log of teacher calls is the one before the
  iteration followed by the one or two calls of this iteration and nothing else: the
  iterations after \<open>i\<close> do not run.
\<close>

theorem teacher_exception_leaves_learn:
  assumes "get_runtime (fst st0) rtn = Inr rt"
    and "get_teacher_runtime (fst st0) tn = Inr teacher"
    and "i < nat n"
    and "learn_loop rt teacher thr bs nf [0 ..< i] st0 = (Inr (), (self, calls))"
    and "select_skill_to_train self (it_feedback (environment self rt bs nf i (skills self))) thr
           = Inr (sn, out, acc)"
    and "sn \<noteq> []"
    and "skillset_skills (skills self) sn = Some sk"
    and "build_examples sk out (analyzed_df (environment self rt bs nf i (skills self))) = Inr exs"
    and "teacher calls (critique_messages sk (join_nl exs)) = Inl e
           \<and> calls' = calls @ [critique_messages sk (join_nl exs)]
         \<or> (\<exists>reasoning.
               teacher calls (critique_messages sk (join_nl exs)) = Inr reasoning
             \<and> teacher (calls @ [critique_messages sk (join_nl exs)])
                  (critique_messages sk (join_nl exs) @
                     [\<lparr>role = ''assistant'', content = reasoning\<rparr>, rewrite_turn sk]) = Inl e
             \<and> calls' = calls @ [critique_messages sk (join_nl exs),
                                 critique_messages sk (join_nl exs) @
                                   [\<lparr>role = ''assistant'', content = reasoning\<rparr>, rewrite_turn sk]])"
  shows "learn n thr bs nf rtn tn st0 = (Inl e, (self, calls'))"
proof -
  have pe: "pe_optimization sk (join_nl exs) teacher calls = (Inl e, calls')"
    using assms(9) by (auto simp add: pe_optimization_def rewrite_messages_def Let_def)
  have "learn_iteration rt teacher thr bs nf i (self, calls) = (Inl e, (self, calls'))"
    using assms(5-8) pe by (simp add: learn_iteration_def)
  with assms(1-4) show ?thesis
    by (rule learn_aborts_at)
qed

text \<open>
  The theorem on two runs of three iterations with accuracy 0.5, below the threshold
  0.9. In scenario C every call of the teacher raises: the first iteration fails in the
  first call. With the teacher that answers three calls, the first iteration rewrites
  the instructions of \<open>summarize\<close> and the second fails in the second call: the agent is
  the one after the first iteration, and the log holds four calls.
\<close>

theorem teacher_exception_leaves_learn_witness:
  "learn 3 (Float 0.9) None None None None
       (static_agent one_skill (table_data [''summary'' \<mapsto> Float 0.5] [row_with_feedback]) raising_teacher, [])
     = (Inl (RuntimeFailure ''timeout''),
        (static_agent one_skill (table_data [''summary'' \<mapsto> Float 0.5] [row_with_feedback]) raising_teacher,
         [critique_messages summarize
            ''Text: abc\<newline>Summary: a\<newline>Feedback: Too short.\<newline>\<newline>'']))
   \<and> learn 3 (Float 0.9) None None None None
       (static_agent one_skill (table_data [''summary'' \<mapsto> Float 0.5] [row_with_feedback]) tiring_teacher, [])
     = (Inl (RuntimeFailure ''timeout''),
        (set_instructions
           (static_agent one_skill (table_data [''summary'' \<mapsto> Float 0.5] [row_with_feedback]) tiring_teacher)
           ''summarize'' summarize ''Summarize the text in two sentences.'',
         [critique_messages summarize
            ''Text: abc\<newline>Summary: a\<newline>Feedback: Too short.\<newline>\<newline>'',
          critique_messages summarize
            ''Text: abc\<newline>Summary: a\<newline>Feedback: Too short.\<newline>\<newline>'' @
            [\<lparr>role = ''assistant'', content = ''The summary is too short.''\<rparr>, rewrite_turn summarize],
          critique_messages (summarize\<lparr>instructions := ''Summarize the text in two sentences.''\<rparr>)
            ''Text: abc\<newline>Summary: a\<newline>Feedback: Too short.\<newline>\<newline>'',
          critique_messages (summarize\<lparr>instructions := ''Summarize the text in two sentences.''\<rparr>)
            ''Text: abc\<newline>Summary: a\<newline>Feedback: Too short.\<newline>\<newline>'' @
            [\<lparr>role = ''assistant'', content = ''The summary is too short.''\<rparr>,
             rewrite_turn (summarize\<lparr>instructions := ''Summarize the text in two sentences.''\<rparr>)]]))"
proof -
  let ?data = "table_data [''summary'' \<mapsto> Float 0.5] [row_with_feedback]"
  let ?ex = "''Text: abc\<newline>Summary: a\<newline>Feedback: Too short.\<newline>\<newline>''"
  let ?A = "static_agent one_skill ?data raising_teacher"
  let ?B = "static_agent one_skill ?data tiring_teacher"
  let ?sk' = "summarize\<lparr>instructions := ''Summarize the text in two sentences.''\<rparr>"
  let ?B' = "set_instructions ?B ''summarize'' summarize ''Summarize the text in two sentences.''"
  let ?d1 = "critique_messages summarize ?ex"
  let ?d2 = "?d1 @ [\<lparr>role = ''assistant'', content = ''The summary is too short.''\<rparr>, rewrite_turn summarize]"
  let ?d3 = "critique_messages ?sk' ?ex"
  let ?d4 = "?d3 @ [\<lparr>role = ''assistant'', content = ''The summary is too short.''\<rparr>, rewrite_turn ?sk']"
  have ex: "build_examples summarize ''summary'' [row_with_feedback] = Inr [?ex]"
    by (simp add: model_defs scenario_defs)
  have ex': "build_examples ?sk' ''summary'' [row_with_feedback] = Inr [?ex]"
    by (simp add: model_defs scenario_defs)

  have rtA: "get_runtime (fst (?A, [])) None = Inr ()"
    by (simp add: get_runtime_def static_agent_def)
  have trtA: "get_teacher_runtime (fst (?A, [])) None = Inr raising_teacher"
    by (simp add: get_teacher_runtime_def static_agent_def)
  have beforeA: "learn_loop () raising_teacher (Float 0.9) None None [0 ..< 0] (?A, []) = (Inr (), (?A, []))"
    by simp
  have selA: "select_skill_to_train ?A (it_feedback (environment ?A () None None 0 (skills ?A))) (Float 0.9)
           = Inr (''summarize'', ''summary'', Some (Float 0.5))"
    by (simp add: select_skill_to_train_def static_agent_def table_data_def one_skill_def)
  have skA: "skillset_skills (skills ?A) ''summarize'' = Some summarize"
    by (simp add: static_agent_def one_skill_def)
  have exA: "build_examples summarize ''summary'' (analyzed_df (environment ?A () None None 0 (skills ?A)))
           = Inr [?ex]"
    using ex by (simp add: static_agent_def table_data_def)
  have failA: "raising_teacher [] (critique_messages summarize (join_nl [?ex])) = Inl (RuntimeFailure ''timeout'')
           \<and> [?d1] = [] @ [critique_messages summarize (join_nl [?ex])]"
    by (simp add: raising_teacher_def)
  have first: "learn 3 (Float 0.9) None None None None (?A, [])
           = (Inl (RuntimeFailure ''timeout''), (?A, [?d1]))"
    by (rule teacher_exception_leaves_learn
              [where i = 0, OF rtA trtA _ beforeA selA _ skA exA disjI1, OF _ _ failA])
       simp_all

  have rtB: "get_runtime (fst (?B, [])) None = Inr ()"
    by (simp add: get_runtime_def static_agent_def)
  have trtB: "get_teacher_runtime (fst (?B, [])) None = Inr tiring_teacher"
    by (simp add: get_teacher_runtime_def static_agent_def)
  have pe0: "pe_optimization summarize ?ex tiring_teacher []
           = (Inr ''Summarize the text in two sentences.'', [?d1, ?d2])"
    by (simp add: pe_optimization_def rewrite_messages_def tiring_teacher_def helpful_teacher_def Let_def)
  have it0: "learn_iteration () tiring_teacher (Float 0.9) None None 0 (?B, []) = (Inr (), (?B', [?d1, ?d2]))"
    using ex pe0
    by (simp add: learn_iteration_def select_skill_to_train_def static_agent_def table_data_def one_skill_def)
  have beforeB: "learn_loop () tiring_teacher (Float 0.9) None None [0 ..< 1] (?B, [])
           = (Inr (), (?B', [?d1, ?d2]))"
    using it0 by simp
  have selB: "select_skill_to_train ?B' (it_feedback (environment ?B' () None None 1 (skills ?B'))) (Float 0.9)
           = Inr (''summarize'', ''summary'', Some (Float 0.5))"
    by (simp add: select_skill_to_train_def set_instructions_def static_agent_def table_data_def one_skill_def)
  have skB: "skillset_skills (skills ?B') ''summarize'' = Some ?sk'"
    by (simp add: set_instructions_def)
  have exB: "build_examples ?sk' ''summary'' (analyzed_df (environment ?B' () None None 1 (skills ?B')))
           = Inr [?ex]"
    using ex' by (simp add: set_instructions_def static_agent_def table_data_def)
  have failB: "\<exists>reasoning.
               tiring_teacher [?d1, ?d2] (critique_messages ?sk' (join_nl [?ex])) = Inr reasoning
             \<and> tiring_teacher ([?d1, ?d2] @ [critique_messages ?sk' (join_nl [?ex])])
                  (critique_messages ?sk' (join_nl [?ex]) @
                     [\<lparr>role = ''assistant'', content = reasoning\<rparr>, rewrite_turn ?sk']) = Inl (RuntimeFailure ''timeout'')
             \<and> [?d1, ?d2, ?d3, ?d4] = [?d1, ?d2] @ [critique_messages ?sk' (join_nl [?ex]),
                                 critique_messages ?sk' (join_nl [?ex]) @
                                   [\<lparr>role = ''assistant'', content = reasoning\<rparr>, rewrite_turn ?sk']]"
    by (simp add: tiring_teacher_def helpful_teacher_def)
  have second: "learn 3 (Float 0.9) None None None None (?B, [])
           = (Inl (RuntimeFailure ''timeout''), (?B', [?d1, ?d2, ?d3, ?d4]))"
    by (rule teacher_exception_leaves_learn
              [where i = 1, OF rtB trtB _ beforeB selB _ skB exB disjI2, OF _ _ failB])
       simp_all
  from first second show ?thesis by simp
qed

text \<open>
  C1, as stated, fails in two ways. In scenario C the exception of the teacher is the
  result of \<open>learn\<close>, and of the three iterations only the first has called the teacher.
  And an empty answer is no failure: with a teacher that answers every call with the
  empty text, one iteration replaces the instructions of \<open>summarize\<close> by the empty text.
\<close>

theorem refinement_failure_counterexample:
  "fst (learn 3 (Float 0.9) None None None None
     (static_agent one_skill (table_data [''summary'' \<mapsto> Float 0.5] [row_with_feedback, row_with_feedback])
        raising_teacher, []))
     = Inl (RuntimeFailure ''timeout'')
   \<and> length (snd (snd (learn 3 (Float 0.9) None None None None
     (static_agent one_skill (table_data [''summary'' \<mapsto> Float 0.5] [row_with_feedback, row_with_feedback])
        raising_teacher, [])))) = 1
   \<and> instructions summarize = ''Summarize the text.''
   \<and> map_option instructions (skillset_skills (skills (fst (snd
       (learn 1 (Float 0.9) None None None None
         (static_agent one_skill (table_data [''summary'' \<mapsto> Float 0.5] [row_with_feedback, row_with_feedback])
            silent_teacher, []))))) ''summarize'')
     = Some []"
  by (simp add: model_defs scenario_defs eval_nat_numeral)

text \<open>
  C6 (amended). Let iteration \<open>i\<close> of \<open>learn\<close> be reached, let a skill be selected in it,
  and let \<open>r\<close> be the first row of the table on which building the examples fails: \<open>r\<close> has
  feedback for the selected output, and rendering the input template, or else the
  output template, on \<open>r\<close> raises \<open>e\<close> (\<open>KeyError\<close> for a field that \<open>r\<close> lacks). Then
  \<open>learn\<close> ends with the exception \<open>e\<close>; the agent and the log of teacher calls are those
  before the iteration, so no refinement was attempted and no instructions were
  written. The iterations after \<open>i\<close> do not run.
\<close>

theorem template_error_leaves_learn:
  assumes "get_runtime (fst st0) rtn = Inr rt"
    and "get_teacher_runtime (fst st0) tn = Inr teacher"
    and "i < nat n"
    and "learn_loop rt teacher thr bs nf [0 ..< i] st0 = (Inr (), (self, calls))"
    and "select_skill_to_train self (it_feedback (environment self rt bs nf i (skills self))) thr
           = Inr (sn, out, acc)"
    and "sn \<noteq> []"
    and "skillset_skills (skills self) sn = Some sk"
    and "analyzed_df (environment self rt bs nf i (skills self)) = pre @ r # post"
    and "build_examples sk out pre = Inr exs"
    and "r (out @ ''__fb'') = Some v" and "truthy v"
    and "py_format (input_template sk) r = Inl e
         \<or> (\<exists>inp. py_format (input_template sk) r = Inr inp
               \<and> py_format (output_template sk) r = Inl e)"
  shows "learn n thr bs nf rtn tn st0 = (Inl e, (self, calls))"
proof -
  have "build_examples sk out (pre @ r # post) = Inl e"
    using assms(9-12) by (rule build_examples_render_error)
  then have "learn_iteration rt teacher thr bs nf i (self, calls) = (Inl e, (self, calls))"
    using assms(5-8) by (simp add: learn_iteration_def)
  with assms(1-4) show ?thesis
    by (rule learn_aborts_at)
qed

text \<open>
  The theorem on a table whose second row lacks the column \<open>text\<close> that the input
  template of \<open>summarize\<close> refers to.
\<close>

theorem template_error_leaves_learn_witness:
  "row_missing_text ''text'' = None
   \<and> py_format (input_template summarize) row_missing_text = Inl (KeyError ''text'')
   \<and> learn 3 (Float 0.9) None None None None
       (static_agent one_skill (table_data [''summary'' \<mapsto> Float 0.5] [row_with_feedback, row_missing_text])
          helpful_teacher, [])
     = (Inl (KeyError ''text''),
        (static_agent one_skill (table_data [''summary'' \<mapsto> Float 0.5] [row_with_feedback, row_missing_text])
          helpful_teacher, []))"
proof -
  let ?self = "static_agent one_skill (table_data [''summary'' \<mapsto> Float 0.5] [row_with_feedback, row_missing_text])
          helpful_teacher"
  have rt: "get_runtime (fst (?self, [])) None = Inr ()"
    by (simp add: get_runtime_def static_agent_def)
  have trt: "get_teacher_runtime (fst (?self, [])) None = Inr helpful_teacher"
    by (simp add: get_teacher_runtime_def static_agent_def)
  have before: "learn_loop () helpful_teacher (Float 0.9) None None [0 ..< 0] (?self, []) = (Inr (), (?self, []))"
    by simp
  have sel: "select_skill_to_train ?self (it_feedback (environment ?self () None None 0 (skills ?self))) (Float 0.9)
           = Inr (''summarize'', ''summary'', Some (Float 0.5))"
    by (simp add: select_skill_to_train_def static_agent_def table_data_def one_skill_def)
  have sk: "skillset_skills (skills ?self) ''summarize'' = Some summarize"
    by (simp add: static_agent_def one_skill_def)
  have rows: "analyzed_df (environment ?self () None None 0 (skills ?self))
           = [row_with_feedback] @ row_missing_text # []"
    by (simp add: static_agent_def table_data_def)
  have pre: "build_examples summarize ''summary'' [row_with_feedback]
           = Inr [''Text: abc\<newline>Summary: a\<newline>Feedback: Too short.\<newline>\<newline>'']"
    by (simp add: model_defs scenario_defs)
  have fb: "row_missing_text (''summary'' @ ''__fb'') = Some (PStr ''Too short.'')"
    by (simp add: row_missing_text_def)
  have absent: "row_missing_text ''text'' = None"
    by (simp add: row_missing_text_def)
  have fails: "py_format (input_template summarize) row_missing_text = Inl (KeyError ''text'')"
    by (simp add: model_defs scenario_defs)
  from template_error_leaves_learn
         [where n = 3 and i = 0, OF rt trt _ before sel _ sk rows pre fb _ disjI1, OF _ _ _ fails]
       absent fails
  show ?thesis by simp
qed

text \<open>
  C6, as stated, fails in its last part: in a run of two iterations with a teacher that
  answers, the \<open>KeyError\<close> of the first iteration is the result of \<open>learn\<close>, and the
  teacher is never called, although the accuracy stays below the threshold.
\<close>

theorem template_error_counterexample:
  "learn 2 (Float 0.9) None None None None
     (static_agent one_skill (table_data [''summary'' \<mapsto> Float 0.5] [row_missing_text]) helpful_teacher, [])
   = (Inl (KeyError ''text''),
      (static_agent one_skill (table_data [''summary'' \<mapsto> Float 0.5] [row_missing_text]) helpful_teacher, []))"
  by (simp add: model_defs scenario_defs eval_nat_numeral)

subsection \<open>Validation at construction\<close>

text \<open>
  C7 (amended). Let \<open>runtimes\<close> be a dictionary without the key \<open>default_runtime\<close>, or let
  \<open>runtimes\<close> be a dictionary with the key \<open>default_runtime\<close> and \<open>teacher_runtimes\<close> a
  dictionary without the key \<open>default_teacher_runtime\<close>. Then the construction of the
  agent fails: the constructor call ends with \<open>ValueError\<close> and yields no agent, so the
  failure is not left to the first use of a runtime. The text of the \<open>ValueError\<close> holds
  the value only. The field (\<open>default_runtime\<close> or \<open>default_teacher_runtime\<close>), its value
  and the list of the keys of the dictionary are named in the one message that is
  printed before the exception is raised.
\<close>

theorem construction_fails_on_unknown_default:
  assumes "rts_opt = Some rts \<and> dr \<notin> fst ` set rts
             \<and> (field, val, names) = (''default_runtime'', dr, map fst rts)
         \<or> rts_opt = Some rts \<and> dr \<in> fst ` set rts
             \<and> trts_opt = Some trts \<and> dtr \<notin> fst ` set trts
             \<and> (field, val, names) = (''default_teacher_runtime'', dtr, map fst trts)"
  shows "\<exists>rest. new_agent env sks rts_opt trts_opt dr dtr =
           ([[Text ''The Agent.'', Text field, Text '' is set to '', Text val,
              Text '', but this runtime is not available in the list: '', Names names] @ rest],
            Inl (ValueError (''default runtime '' @ val @ '' not found in provided runtimes.'')))"
  using assms
  by (elim disjE conjE)
     (simp_all add: new_agent_def verify_input_parameters_def raise_default_runtime_error_def)

text \<open>
  The theorem on two constructions: \<open>default_runtime\<close> is \<open>llama\<close> while \<open>runtimes\<close> has
  \<open>openai\<close> and \<open>azure\<close>, and \<open>default_teacher_runtime\<close> is \<open>openai-gpt4\<close> while
  \<open>teacher_runtimes\<close> only has \<open>openai-gpt3\<close>.
\<close>

theorem construction_fails_on_unknown_default_witness:
  "(\<exists>rest. new_agent (\<lambda>rt bs nf i s. table_data Map.empty []) one_skill
        (Some [(''openai'', ()), (''azure'', ())]) (Some [(''openai-gpt3'', helpful_teacher)])
        ''llama'' ''openai-gpt3'' =
       ([[Text ''The Agent.'', Text ''default_runtime'', Text '' is set to '', Text ''llama'',
          Text '', but this runtime is not available in the list: '', Names [''openai'', ''azure'']] @ rest],
        Inl (ValueError ''default runtime llama not found in provided runtimes.'')))
   \<and> (\<exists>rest. new_agent (\<lambda>rt bs nf i s. table_data Map.empty []) one_skill
        (Some [(''openai'', ())]) (Some [(''openai-gpt3'', helpful_teacher)])
        ''openai'' ''openai-gpt4'' =
       ([[Text ''The Agent.'', Text ''default_teacher_runtime'', Text '' is set to '', Text ''openai-gpt4'',
          Text '', but this runtime is not available in the list: '', Names [''openai-gpt3'']] @ rest],
        Inl (ValueError ''default runtime openai-gpt4 not found in provided runtimes.'')))"
proof -
  have first: "Some [(''openai'', ()), (''azure'', ())] = Some [(''openai'', ()), (''azure'', ())]
             \<and> ''llama'' \<notin> fst ` set [(''openai'', ()), (''azure'', ())]
             \<and> (''default_runtime'', ''llama'', [''openai'', ''azure''])
                 = (''default_runtime'', ''llama'', map fst [(''openai'', ()), (''azure'', ())])"
    by simp
  have second: "Some [(''openai'', ())] = Some [(''openai'', ())]
             \<and> ''openai'' \<in> fst ` set [(''openai'', ())]
             \<and> Some [(''openai-gpt3'', helpful_teacher)] = Some [(''openai-gpt3'', helpful_teacher)]
             \<and> ''openai-gpt4'' \<notin> fst ` set [(''openai-gpt3'', helpful_teacher)]
             \<and> (''default_teacher_runtime'', ''openai-gpt4'', [''openai-gpt3''])
                 = (''default_teacher_runtime'', ''openai-gpt4'', map fst [(''openai-gpt3'', helpful_teacher)])"
    by simp
  from construction_fails_on_unknown_default
         [where env = "\<lambda>rt bs nf i s. table_data Map.empty []" and sks = one_skill
            and trts_opt = "Some [(''openai-gpt3'', helpful_teacher)]" and dtr = "''openai-gpt3''",
          OF disjI1, OF first]
       construction_fails_on_unknown_default
         [where env = "\<lambda>rt bs nf i s. table_data Map.empty []" and sks = one_skill,
          OF disjI2, OF second]
  show ?thesis by simp
qed

text \<open>
  C7, as stated, fails in two ways. When \<open>runtimes\<close> is \<open>None\<close> (the field is optional)
  and \<open>default_teacher_runtime\<close> is not a key of \<open>teacher_runtimes\<close>, the construction
  ends with \<open>TypeError\<close> and nothing is printed: no field is named, no names are listed.
  And where the construction ends with \<open>ValueError\<close>, the text of the exception holds
  the value \<open>openai-gpt4\<close>, but neither the field \<open>default_teacher_runtime\<close> nor the
  available name \<open>openai-gpt3\<close>.
\<close>

theorem construction_error_counterexample:
  "''openai-gpt4'' \<notin> fst ` set [(''openai-gpt3'', helpful_teacher)]
   \<and> new_agent (\<lambda>rt bs nf i s. table_data Map.empty []) one_skill
        (None :: (string \<times> unit) list option) (Some [(''openai-gpt3'', helpful_teacher)])
        ''openai'' ''openai-gpt4''
      = ([], Inl (TypeError ''argument of type 'NoneType' is not iterable''))
   \<and> snd (new_agent (\<lambda>rt bs nf i s. table_data Map.empty []) one_skill
        (Some [(''openai'', ())]) (Some [(''openai-gpt3'', helpful_teacher)])
        ''openai'' ''openai-gpt4'')
      = Inl (ValueError ''default runtime openai-gpt4 not found in provided runtimes.'')"
  by (simp add: new_agent_def verify_input_parameters_def raise_default_runtime_error_def
        none_not_iterable_def)

end
